theory Spec2Isabelle
  imports Complex_Main
begin

section \<open>Python strings\<close>

text \<open>
  A Python \<open>str\<close> is a sequence of Unicode code points, so it is modelled as a list of
  natural numbers, one per code point. ASCII literals are written with \<open>ascii\<close>; the
  literals of the source that contain CJK characters are given by their code points.
\<close>

type_synonym str = "nat list"

definition ascii :: "string \<Rightarrow> str" where
  "ascii s = map of_char s"

text \<open>\<open>s.startswith(p)\<close>.\<close>

definition startswith :: "str \<Rightarrow> str \<Rightarrow> bool" where
  "startswith s p = (take (length p) s = p)"

text \<open>
  \<open>str.isspace\<close> on one code point: the code points for which CPython's
  \<open>Py_UNICODE_ISSPACE\<close> holds.
\<close>

definition isspace :: "nat \<Rightarrow> bool" where
  "isspace c = (c \<in> set [9, 10, 11, 12, 13, 28, 29, 30, 31, 32, 133, 160, 5760,
     8192, 8193, 8194, 8195, 8196, 8197, 8198, 8199, 8200, 8201, 8202,
     8232, 8233, 8239, 8287, 12288])"

text \<open>\<open>s.strip()\<close> without argument: whitespace removed at both ends.\<close>

definition lstrip :: "str \<Rightarrow> str" where
  "lstrip s = dropWhile isspace s"

definition rstrip :: "str \<Rightarrow> str" where
  "rstrip s = rev (dropWhile isspace (rev s))"

definition strip :: "str \<Rightarrow> str" where
  "strip s = rstrip (lstrip s)"

text \<open>\<open>s.rstrip(chars)\<close> with an explicit set of characters.\<close>

definition rstrip_chars :: "str \<Rightarrow> str \<Rightarrow> str" where
  "rstrip_chars s chars = rev (dropWhile (\<lambda>c. c \<in> set chars) (rev s))"

text \<open>
  \<open>s.split(sep, 1)\<close> for a separator of one code point: at most one split, at the
  first occurrence of the separator.
\<close>

definition split1 :: "str \<Rightarrow> nat \<Rightarrow> str list" where
  "split1 s sep =
     (case dropWhile (\<lambda>c. c \<noteq> sep) s of
        [] \<Rightarrow> [s]
      | _ # rest \<Rightarrow> [takeWhile (\<lambda>c. c \<noteq> sep) s, rest])"

text \<open>
  \<open>s.lower()\<close>. Only the ASCII letters \<open>A\<close> to \<open>Z\<close> are mapped; the Unicode case
  table beyond ASCII is not modelled and other code points are left as they are.
\<close>

definition lower_cp :: "nat \<Rightarrow> nat" where
  "lower_cp c = (if 65 \<le> c \<and> c \<le> 90 then c + 32 else c)"

definition lower :: "str \<Rightarrow> str" where
  "lower s = map lower_cp s"

text \<open>\<open>k in s\<close> on strings: \<open>k\<close> occurs as a contiguous substring of \<open>s\<close>.\<close>

fun contains :: "str \<Rightarrow> str \<Rightarrow> bool" where
  "contains [] k = (k = [])"
| "contains (c # cs) k = (startswith (c # cs) k \<or> contains cs k)"

text \<open>
  \<open>s.replace(old, new)\<close>: every non-overlapping occurrence of \<open>old\<close>, scanning from
  the left. With an empty \<open>old\<close> Python inserts \<open>new\<close> before every code point and at
  the end.
\<close>

function replace :: "str \<Rightarrow> str \<Rightarrow> str \<Rightarrow> str" where
  "replace [] old new = (if old = [] then new else [])"
| "replace (c # cs) old new =
     (if old = [] then new @ c # replace cs old new
      else if startswith (c # cs) old then new @ replace (drop (length old) (c # cs)) old new
      else c # replace cs old new)"
  by pat_completeness auto
termination
  by (relation "measure (\<lambda>(s, old, new). length s)") (auto simp: neq_Nil_conv)

text \<open>Truthiness of a string: \<open>a or b\<close> yields \<open>a\<close> unless it is empty.\<close>

definition str_or :: "str \<Rightarrow> str \<Rightarrow> str" where
  "str_or a b = (if a \<noteq> [] then a else b)"


section \<open>The comment queue\<close>

text \<open>
  \<open>_comment_q\<close> is a \<open>deque(maxlen=5000)\<close> of pairs \<open>(timestamp, line)\<close>. It is the list
  of its entries from the left end (oldest) to the right end (newest). The timestamp
  is the float returned by \<open>time.time()\<close>; it is stored and never inspected, and is a
  real number here.
\<close>

type_synonym comment = "real \<times> str"

definition comment_q_maxlen :: nat where
  "comment_q_maxlen = 5000"

text \<open>
  \<open>deque.append\<close> on a bounded deque: the item is added at the right end and, when the
  deque is then longer than \<open>maxlen\<close>, one item is removed from the left end.
\<close>

definition deque_append :: "nat \<Rightarrow> 'a list \<Rightarrow> 'a \<Rightarrow> 'a list" where
  "deque_append maxlen q x =
     (let q' = q @ [x] in if length q' > maxlen then tl q' else q')"


section \<open>Exceptions and results\<close>

text \<open>
  A raised exception is a value. \<open>Exception msg\<close> is an instance of (a subclass of)
  Python's \<open>Exception\<close> whose \<open>str()\<close> is \<open>msg\<close>; \<open>BaseException msg\<close> is one
  that derives from \<open>BaseException\<close> only (\<open>SystemExit\<close>, \<open>KeyboardInterrupt\<close>), which
  a clause \<open>except Exception\<close> does not catch. A computation that may raise returns
  \<open>Inl\<close> of the exception or \<open>Inr\<close> of its value.
\<close>

datatype exn = Exception str | BaseException str

type_synonym 'a result = "exn + 'a"

text \<open>\<open>try: body except Exception as e: handler(str(e))\<close>.\<close>

definition try_except :: "'a result \<Rightarrow> (str \<Rightarrow> 'a result) \<Rightarrow> 'a result" where
  "try_except body handler =
     (case body of
        Inl (Exception msg) \<Rightarrow> handler msg
      | Inl (BaseException msg) \<Rightarrow> Inl (BaseException msg)
      | Inr v \<Rightarrow> Inr v)"


section \<open>JSON values\<close>

text \<open>
  The value returned by \<open>r.json()\<close>. A JSON object is the association list of a Python
  \<open>dict\<close>, read with \<open>map_of\<close>. A float is a real number; only its truthiness is used.
\<close>

datatype json =
    JNull
  | JBool bool
  | JInt int
  | JFloat real
  | JStr str
  | JList "json list"
  | JDict "(str \<times> json) list"

text \<open>Python truthiness, as tested by \<open>if v\<close> and \<open>a or b\<close>.\<close>

fun truthy :: "json \<Rightarrow> bool" where
  "truthy JNull = False"
| "truthy (JBool b) = b"
| "truthy (JInt i) = (i \<noteq> 0)"
| "truthy (JFloat x) = (x \<noteq> 0)"
| "truthy (JStr s) = (s \<noteq> [])"
| "truthy (JList xs) = (xs \<noteq> [])"
| "truthy (JDict kvs) = (kvs \<noteq> [])"

fun type_name :: "json \<Rightarrow> str" where
  "type_name JNull = ascii ''NoneType''"
| "type_name (JBool b) = ascii ''bool''"
| "type_name (JInt i) = ascii ''int''"
| "type_name (JFloat x) = ascii ''float''"
| "type_name (JStr s) = ascii ''str''"
| "type_name (JList xs) = ascii ''list''"
| "type_name (JDict kvs) = ascii ''dict''"

text \<open>The \<open>AttributeError\<close> raised by \<open>v.attr\<close> when the type of \<open>v\<close> has no such attribute.\<close>

definition attribute_error :: "json \<Rightarrow> string \<Rightarrow> 'a result" where
  "attribute_error v attr =
     Inl (Exception (ascii [CHR 0x27] @ type_name v @ ascii [CHR 0x27] @
       ascii '' object has no attribute '' @ ascii [CHR 0x27] @ ascii attr @ ascii [CHR 0x27]))"

text \<open>\<open>v.get(key, default)\<close>: only a \<open>dict\<close> has the method.\<close>

fun dict_get :: "json \<Rightarrow> str \<Rightarrow> json \<Rightarrow> json result" where
  "dict_get (JDict kvs) key dflt = Inr (case map_of kvs key of None \<Rightarrow> dflt | Some v \<Rightarrow> v)"
| "dict_get v key dflt = attribute_error v ''get''"

text \<open>\<open>v.strip()\<close>: only a \<open>str\<close> has the method.\<close>

fun json_strip :: "json \<Rightarrow> str result" where
  "json_strip (JStr s) = Inr (strip s)"
| "json_strip v = attribute_error v ''strip''"


section \<open>Configuration records\<close>

record openai_config =
  oa_base_url :: str
  oa_api_key :: str
  oa_model :: str

record dify_config =
  dify_endpoint :: str
  dify_api_key :: str
  dify_user :: str
  dify_inputs :: json
  dify_response_mode :: str

record coze_config =
  coze_endpoint :: str
  coze_api_key :: str
  coze_bot_id :: str
  coze_user_id :: str
  coze_stream :: bool

definition OpenAIConfig :: openai_config where
  "OpenAIConfig = \<lparr>oa_base_url = [], oa_api_key = [], oa_model = []\<rparr>"

definition DifyConfig :: dify_config where
  "DifyConfig = \<lparr>dify_endpoint = [], dify_api_key = [], dify_user = ascii ''tiktok_live_user'',
     dify_inputs = JDict [], dify_response_mode = ascii ''blocking''\<rparr>"

definition CozeConfig :: coze_config where
  "CozeConfig = \<lparr>coze_endpoint = ascii ''https://api.coze.com/open_api/v2/chat'',
     coze_api_key = [], coze_bot_id = [], coze_user_id = ascii ''tiktok_live_user'',
     coze_stream = False\<rparr>"


section \<open>The reply manager\<close>

text \<open>
  The fields of \<open>AIReplyManager\<close> (without the leading underscore of the private ones;
  \<open>_keywords\<close> is \<open>keyword_list\<close>).
  The lock is not a field: every operation below is one atomic step. The bridge is the
  pair of signals that emissions go to; an emission is an \<open>event\<close>.
\<close>

record manager =
  mode :: str
  openai_cfg :: openai_config
  dify_cfg :: dify_config
  coze_cfg :: coze_config
  enabled :: bool
  keyword_mode :: bool
  keyword_list :: "str list"
  max_batch :: int
  custom_system_prompt :: str
  comment_q :: "comment list"
  worker_active :: bool

datatype event = Reply str | Error str

definition init :: manager where
  "init = \<lparr>mode = ascii ''echo'', openai_cfg = OpenAIConfig, dify_cfg = DifyConfig,
     coze_cfg = CozeConfig, enabled = False, keyword_mode = False, keyword_list = [],
     max_batch = 1, custom_system_prompt = [], comment_q = [], worker_active = False\<rparr>"

subsection \<open>Configuration\<close>

definition set_mode :: "str \<Rightarrow> manager \<Rightarrow> manager" where
  "set_mode md m =
     m\<lparr>mode := (if md \<notin> set [ascii ''openai'', ascii ''dify'', ascii ''coze'', ascii ''echo'']
                 then ascii ''echo'' else md)\<rparr>"

definition config_openai :: "str \<Rightarrow> str \<Rightarrow> str \<Rightarrow> manager \<Rightarrow> manager" where
  "config_openai base_url api_key model m =
     m\<lparr>openai_cfg := \<lparr>oa_base_url = strip base_url, oa_api_key = strip api_key,
       oa_model = strip model\<rparr>\<rparr>"

definition config_dify :: "str \<Rightarrow> str \<Rightarrow> str \<Rightarrow> manager \<Rightarrow> manager" where
  "config_dify endpoint api_key user m =
     m\<lparr>dify_cfg := DifyConfig\<lparr>dify_endpoint := strip endpoint, dify_api_key := strip api_key,
       dify_user := str_or (strip user) (ascii ''tiktok_live_user'')\<rparr>\<rparr>"

definition config_coze :: "str \<Rightarrow> str \<Rightarrow> str \<Rightarrow> str option \<Rightarrow> manager \<Rightarrow> manager" where
  "config_coze api_key bot_id user_id endpoint m =
     (let c0 = coze_cfg m;
          c1 = (case endpoint of
                  None \<Rightarrow> c0
                | Some e \<Rightarrow> if e \<noteq> [] then c0\<lparr>coze_endpoint := strip e\<rparr> else c0)
      in m\<lparr>coze_cfg := c1\<lparr>coze_api_key := strip api_key, coze_bot_id := strip bot_id,
           coze_user_id := str_or (strip user_id) (ascii ''tiktok_live_user'')\<rparr>\<rparr>)"

definition set_enabled :: "bool \<Rightarrow> manager \<Rightarrow> manager" where
  "set_enabled b m = m\<lparr>enabled := b\<rparr>"

definition set_keyword_mode :: "bool \<Rightarrow> str list option \<Rightarrow> manager \<Rightarrow> manager" where
  "set_keyword_mode b ks m =
     (let m' = m\<lparr>keyword_mode := b\<rparr>
      in case ks of
           None \<Rightarrow> m'
         | Some l \<Rightarrow> m'\<lparr>keyword_list := map strip (filter (\<lambda>k. strip k \<noteq> []) l)\<rparr>)"

definition set_max_batch :: "int \<Rightarrow> manager \<Rightarrow> manager" where
  "set_max_batch n m = m\<lparr>max_batch := max 1 n\<rparr>"

definition set_custom_prompt :: "str \<Rightarrow> manager \<Rightarrow> manager" where
  "set_custom_prompt prompt m = m\<lparr>custom_system_prompt := strip prompt\<rparr>"

definition clear_pending_comments :: "manager \<Rightarrow> manager" where
  "clear_pending_comments m = m\<lparr>comment_q := []\<rparr>"

subsection \<open>Comment ingestion\<close>

text \<open>\<open>add_comment\<close>; \<open>ts\<close> is the value that \<open>time.time()\<close> returns in the call.\<close>

definition add_comment :: "real \<Rightarrow> str \<Rightarrow> manager \<Rightarrow> manager" where
  "add_comment ts comment_line m =
     (if comment_line = [] \<or> startswith comment_line (ascii ''['') then m
      else m\<lparr>comment_q := deque_append comment_q_maxlen (comment_q m) (ts, comment_line)\<rparr>)"

subsection \<open>The periodic cycle\<close>

definition accept_line :: "manager \<Rightarrow> str \<Rightarrow> bool" where
  "accept_line m line =
     (if \<not> keyword_mode m then True
      else list_ex (\<lambda>k. contains (lower line) (lower k)) (keyword_list m))"

text \<open>
  The loop of \<open>cycle\<close>: while the queue is not empty and fewer than \<open>max_batch\<close> lines
  are collected, pop the entry at the right end (the newest) and keep its line when it
  is accepted. It returns the queue that is left and the collected lines.
\<close>

function drain :: "manager \<Rightarrow> comment list \<Rightarrow> str list \<Rightarrow> comment list \<times> str list" where
  "drain m q items =
     (if q \<noteq> [] \<and> int (length items) < max_batch m
      then (let line = snd (last q); q' = butlast q
            in drain m q' (if accept_line m line then items @ [line] else items))
      else (q, items))"
  by pat_completeness auto
termination
  by (relation "measure (\<lambda>(m, q, items). length q)") auto

declare drain.simps [simp del]

text \<open>
  \<open>_start_worker\<close> sets the flag and starts a thread that will run \<open>_worker_run\<close> on
  the line. The started thread is the second component of the result.
\<close>

definition start_worker :: "str \<Rightarrow> manager \<Rightarrow> manager \<times> str option" where
  "start_worker comment_line m = (m\<lparr>worker_active := True\<rparr>, Some comment_line)"

text \<open>
  \<open>cycle\<close> returns the manager after the call and the line of the worker thread it
  started, if it started one.
\<close>

definition cycle :: "manager \<Rightarrow> manager \<times> str option" where
  "cycle m =
     (if \<not> enabled m then (m, None)
      else if worker_active m then (m, None)
      else (let (q', items) = drain m (comment_q m) [];
                m' = m\<lparr>comment_q := q'\<rparr>
            in if items = [] then (m', None)
               else start_worker (hd items) m'))"

subsection \<open>Prompts\<close>

definition extract_comment_text :: "str \<Rightarrow> str" where
  "extract_comment_text line =
     (let parts = split1 line (of_char CHR '':'')
      in if length parts = 2 then strip (parts ! 1) else strip line)"

text \<open>The default system prompt: three Chinese sentences followed by three English ones.\<close>

definition default_system_prompt :: str where
  "default_system_prompt =
     [20320, 26159, 19968, 20010, 30452, 25773, 38388, 20114, 21160, 23567, 21161, 25163, 12290,
      35831, 22987, 32456, 20351, 29992, 19982, 35266, 20247, 35780, 35770, 30456, 21516, 30340,
      35821, 35328, 36827, 34892, 31616, 30701, 12289, 33258, 28982, 12289, 21451, 22909, 30340,
      22238, 22797, 65307,
      19981, 35201, 32763, 35793, 25110, 20999, 25442, 21040, 20854, 23427, 35821, 35328, 65292,
      38500, 38750, 35266, 20247, 26126, 30830, 35201, 27714, 20320, 32763, 35793, 25110, 25913,
      29992, 20854, 23427, 35821, 35328, 12290] @
     ascii ''Reply in the same language as the viewer comment. '' @
     ascii ''Do NOT translate or change language unless explicitly asked. '' @
     ascii ''Keep replies to 1 concise sentence.''"

text \<open>
  The prefix of the user prompt: the four characters U+89C2 U+4F17 U+8BC4 U+8BBA
  ("viewer comment") and the full-width colon U+FF1A.
\<close>

definition user_prompt_prefix :: str where
  "user_prompt_prefix = [35266, 20247, 35780, 35770, 65306]"

definition build_prompts :: "manager \<Rightarrow> str \<Rightarrow> str \<times> str" where
  "build_prompts m text =
     (let system_prompt = str_or (custom_system_prompt m) default_system_prompt;
          user_prompt = user_prompt_prefix @ text
      in (system_prompt, user_prompt))"


section \<open>The backends\<close>

text \<open>
  What lies outside the program is a parameter: whether the \<open>openai\<close> package was imported,
  what the chat completion request and the HTTP request do, \<open>repr\<close> of a JSON value, and
  whether emitting a Qt signal raises. A request either raises an exception deriving from
  \<open>Exception\<close> (transport error, HTTP status error, body that is not JSON), given by its
  message, or it returns: the chat completion the \<open>content\<close> of the message of each
  choice (\<open>None\<close> when there is none), the HTTP request the decoded JSON body.
\<close>

datatype chat_outcome = ChatRaises str | ChatChoices "str option list"

datatype http_outcome = HttpRaises str | HttpJson json

record env =
  sdk_available :: bool
  chat_create :: "openai_config \<Rightarrow> str \<Rightarrow> str \<Rightarrow> chat_outcome"
  http_post :: "str \<Rightarrow> (str \<times> str) list \<Rightarrow> json \<Rightarrow> http_outcome"
  repr :: "json \<Rightarrow> str"
  reply_emit :: "str \<Rightarrow> exn option"
  error_emit :: "str \<Rightarrow> exn option"

definition echo :: "str \<Rightarrow> str" where
  "echo text = ascii ''AI(Echo): '' @ text"

text \<open>The tags of the sentinel strings: "[AI error] ... call failed: " and "[AI warning] ...".\<close>

definition openai_error_tag :: str where
  "openai_error_tag = [91, 65, 73, 38169, 35823, 93, 32] @ ascii ''OpenAI '' @
     [35843, 29992, 22833, 36133] @ ascii '': ''"

definition dify_error_tag :: str where
  "dify_error_tag = [91, 65, 73, 38169, 35823, 93, 32] @ ascii ''Dify '' @
     [35843, 29992, 22833, 36133] @ ascii '': ''"

definition dify_warning_tag :: str where
  "dify_warning_tag = [91, 65, 73, 35686, 21578, 93, 32] @ ascii ''Dify '' @
     [26080, 21487, 29992, 32] @ ascii ''answer '' @ [23383, 27573] @ ascii '': ''"

definition coze_error_tag :: str where
  "coze_error_tag = [91, 65, 73, 38169, 35823, 93, 32] @ ascii ''Coze '' @
     [35843, 29992, 22833, 36133] @ ascii '': ''"

definition coze_warning_tag :: str where
  "coze_warning_tag = [91, 65, 73, 35686, 21578, 93, 32] @ ascii ''Coze '' @
     [26080, 21487, 29992, 25991, 26412] @ ascii '': ''"

subsection \<open>OpenAI-compatible\<close>

text \<open>\<open>resp.choices[0].message.content.strip()\<close>, with the request that produces \<open>resp\<close>.\<close>

definition openai_request :: "env \<Rightarrow> openai_config \<Rightarrow> str \<Rightarrow> str \<Rightarrow> str result" where
  "openai_request e cfg system_prompt user_prompt =
     (case chat_create e cfg system_prompt user_prompt of
        ChatRaises msg \<Rightarrow> Inl (Exception msg)
      | ChatChoices [] \<Rightarrow> Inl (Exception (ascii ''list index out of range''))
      | ChatChoices (None # _) \<Rightarrow> attribute_error JNull ''strip''
      | ChatChoices (Some content # _) \<Rightarrow> Inr (strip content))"

definition call_openai :: "env \<Rightarrow> manager \<Rightarrow> str \<Rightarrow> str \<Rightarrow> str result" where
  "call_openai e m system_prompt user_prompt =
     (let cfg = openai_cfg m
      in if \<not> (oa_base_url cfg \<noteq> [] \<and> oa_api_key cfg \<noteq> [] \<and> oa_model cfg \<noteq> [] \<and>
                sdk_available e)
         then Inr (echo (strip (replace user_prompt user_prompt_prefix [])))
         else try_except (openai_request e cfg system_prompt user_prompt)
                (\<lambda>msg. Inr (openai_error_tag @ msg)))"

subsection \<open>Dify\<close>

definition bearer_headers :: "str \<Rightarrow> (str \<times> str) list" where
  "bearer_headers api_key =
     [(ascii ''Authorization'', ascii ''Bearer '' @ api_key),
      (ascii ''Content-Type'', ascii ''application/json'')]"

text \<open>The body of the \<open>with\<close> block: post, \<open>raise_for_status\<close>, decode.\<close>

definition post_json :: "env \<Rightarrow> str \<Rightarrow> (str \<times> str) list \<Rightarrow> json \<Rightarrow> json result" where
  "post_json e url headers payload =
     (case http_post e url headers payload of
        HttpRaises msg \<Rightarrow> Inl (Exception msg)
      | HttpJson data \<Rightarrow> Inr data)"

text \<open>\<open>data.get("answer") or data.get("data", {}).get("answer")\<close>.\<close>

definition dify_answer :: "json \<Rightarrow> json result" where
  "dify_answer data =
     (case dict_get data (ascii ''answer'') JNull of
        Inl x \<Rightarrow> Inl x
      | Inr a \<Rightarrow>
          if truthy a then Inr a
          else (case dict_get data (ascii ''data'') (JDict []) of
                  Inl x \<Rightarrow> Inl x
                | Inr d \<Rightarrow> dict_get d (ascii ''answer'') JNull))"

definition dify_request :: "env \<Rightarrow> dify_config \<Rightarrow> str \<Rightarrow> str result" where
  "dify_request e cfg text =
     (let url = rstrip_chars (dify_endpoint cfg) (ascii ''/'') @ ascii ''/chat-messages'';
          headers = bearer_headers (dify_api_key cfg);
          payload = JDict [(ascii ''inputs'', dify_inputs cfg), (ascii ''query'', JStr text),
            (ascii ''response_mode'', JStr (dify_response_mode cfg)),
            (ascii ''user'', JStr (dify_user cfg))]
      in case post_json e url headers payload of
           Inl x \<Rightarrow> Inl x
         | Inr data \<Rightarrow>
             (case dify_answer data of
                Inl x \<Rightarrow> Inl x
              | Inr answer \<Rightarrow>
                  if truthy answer then json_strip answer
                  else Inr (dify_warning_tag @ repr e data)))"

definition call_dify_agent :: "env \<Rightarrow> manager \<Rightarrow> str \<Rightarrow> str result" where
  "call_dify_agent e m text =
     (let cfg = dify_cfg m
      in if \<not> (dify_endpoint cfg \<noteq> [] \<and> dify_api_key cfg \<noteq> []) then Inr (echo text)
         else try_except (dify_request e cfg text) (\<lambda>msg. Inr (dify_error_tag @ msg)))"

subsection \<open>Coze\<close>

text \<open>
  The inner loop over the blocks of a \<open>content\<close> list: \<open>Some\<close> of the returned text,
  or \<open>None\<close> when the loop ends without returning.
\<close>

fun coze_blocks :: "json list \<Rightarrow> str option result" where
  "coze_blocks [] = Inr None"
| "coze_blocks (c # cs) =
     (case dict_get c (ascii ''type'') JNull of
        Inl x \<Rightarrow> Inl x
      | Inr t \<Rightarrow>
          if t = JStr (ascii ''text'')
          then (case dict_get c (ascii ''text'') JNull of
                  Inl x \<Rightarrow> Inl x
                | Inr txt \<Rightarrow>
                    if truthy txt
                    then (case json_strip txt of Inl x \<Rightarrow> Inl x | Inr s \<Rightarrow> Inr (Some s))
                    else coze_blocks cs)
          else coze_blocks cs)"

text \<open>The outer loop, over the messages from the last to the first.\<close>

fun coze_messages :: "json list \<Rightarrow> str option result" where
  "coze_messages [] = Inr None"
| "coze_messages (msg # rest) =
     (case dict_get msg (ascii ''content'') JNull of
        Inl x \<Rightarrow> Inl x
      | Inr content \<Rightarrow>
          (case content of
             JList cs \<Rightarrow>
               (case coze_blocks cs of
                  Inl x \<Rightarrow> Inl x
                | Inr (Some s) \<Rightarrow> Inr (Some s)
                | Inr None \<Rightarrow> coze_messages rest)
           | JStr s \<Rightarrow> if strip s \<noteq> [] then Inr (Some (strip s)) else coze_messages rest
           | _ \<Rightarrow> coze_messages rest))"

text \<open>\<open>data.get("data", {}).get("messages") or data.get("messages")\<close>.\<close>

definition coze_message_list :: "json \<Rightarrow> json result" where
  "coze_message_list data =
     (case dict_get data (ascii ''data'') (JDict []) of
        Inl x \<Rightarrow> Inl x
      | Inr d \<Rightarrow>
          (case dict_get d (ascii ''messages'') JNull of
             Inl x \<Rightarrow> Inl x
           | Inr ms \<Rightarrow> if truthy ms then Inr ms else dict_get data (ascii ''messages'') JNull))"

definition coze_request :: "env \<Rightarrow> coze_config \<Rightarrow> str \<Rightarrow> str result" where
  "coze_request e cfg text =
     (let url = coze_endpoint cfg;
          headers = bearer_headers (coze_api_key cfg);
          payload = JDict [(ascii ''bot_id'', JStr (coze_bot_id cfg)),
            (ascii ''user_id'', JStr (coze_user_id cfg)), (ascii ''query'', JStr text),
            (ascii ''stream'', JBool (coze_stream cfg))]
      in case post_json e url headers payload of
           Inl x \<Rightarrow> Inl x
         | Inr data \<Rightarrow>
             (case coze_message_list data of
                Inl x \<Rightarrow> Inl x
              | Inr messages \<Rightarrow>
                  (case (case messages of
                           JList ms \<Rightarrow> if ms \<noteq> [] then coze_messages (rev ms) else Inr None
                         | _ \<Rightarrow> Inr None) of
                     Inl x \<Rightarrow> Inl x
                   | Inr (Some s) \<Rightarrow> Inr s
                   | Inr None \<Rightarrow> Inr (coze_warning_tag @ repr e data))))"

definition call_coze_agent :: "env \<Rightarrow> manager \<Rightarrow> str \<Rightarrow> str result" where
  "call_coze_agent e m text =
     (let cfg = coze_cfg m
      in if \<not> (coze_api_key cfg \<noteq> [] \<and> coze_bot_id cfg \<noteq> []) then Inr (echo text)
         else try_except (coze_request e cfg text) (\<lambda>msg. Inr (coze_error_tag @ msg)))"


section \<open>The dispatch worker\<close>

text \<open>The placeholder for an empty reply, and the prefix of the worker's error message.\<close>

definition no_reply :: str where
  "no_reply = ascii ''[AI] '' @ [65288, 26080, 22238, 22797, 65289]"

definition worker_failed_tag :: str where
  "worker_failed_tag = ascii ''AI '' @ [22238, 22797, 22833, 36133] @ ascii '': ''"

text \<open>
  The \<open>try\<close> block of \<open>_worker_run\<close> up to the emission: the reply that will be emitted,
  read from the manager as it is while the worker runs.
\<close>

definition worker_reply :: "env \<Rightarrow> manager \<Rightarrow> str \<Rightarrow> str result" where
  "worker_reply e m comment_line =
     (let text = extract_comment_text comment_line;
          (system_prompt, user_prompt) = build_prompts m text;
          r = (if mode m = ascii ''openai'' then call_openai e m system_prompt user_prompt
               else if mode m = ascii ''dify'' then call_dify_agent e m text
               else if mode m = ascii ''coze'' then call_coze_agent e m text
               else Inr (echo text))
      in case r of
           Inl x \<Rightarrow> Inl x
         | Inr reply \<Rightarrow> Inr (if reply = [] then no_reply else reply))"

text \<open>
  A block of the worker: it runs on the manager and returns the manager, the events it
  emitted, and its value or the exception it raised.
\<close>

type_synonym block = "manager \<Rightarrow> manager \<times> event list \<times> unit result"

text \<open>Emitting a signal: the event is recorded unless the emission raises.\<close>

definition emit_signal :: "exn option \<Rightarrow> event \<Rightarrow> block" where
  "emit_signal raised ev m = (case raised of None \<Rightarrow> (m, [ev], Inr ()) | Some x \<Rightarrow> (m, [], Inl x))"

text \<open>
  \<open>try: body except Exception as e: handler(str(e)) finally: cleanup\<close>. The handler
  runs when the body raised an exception deriving from \<open>Exception\<close>; the cleanup runs
  last in every case, and an exception that was not handled, or that the handler raised,
  leaves the statement after it.
\<close>

definition try_except_finally :: "block \<Rightarrow> (str \<Rightarrow> block) \<Rightarrow> (manager \<Rightarrow> manager) \<Rightarrow> block" where
  "try_except_finally body handler cleanup m =
     (let (m1, evs1, r1) = body m;
          (m2, evs2, r2) =
            (case r1 of
               Inl (Exception msg) \<Rightarrow>
                 (let (m', evs', r') = handler msg m1 in (m', evs1 @ evs', r'))
             | _ \<Rightarrow> (m1, evs1, r1))
      in (cleanup m2, evs2, r2))"

text \<open>The \<open>try\<close> block of \<open>_worker_run\<close>: the reply is computed, then emitted.\<close>

definition worker_try :: "env \<Rightarrow> str \<Rightarrow> block" where
  "worker_try e comment_line m =
     (case worker_reply e m comment_line of
        Inl x \<Rightarrow> (m, [], Inl x)
      | Inr reply \<Rightarrow> emit_signal (reply_emit e reply) (Reply reply) m)"

text \<open>The \<open>except Exception as e\<close> clause: the error signal is emitted.\<close>

definition worker_except :: "env \<Rightarrow> str \<Rightarrow> block" where
  "worker_except e msg m =
     emit_signal (error_emit e (worker_failed_tag @ msg)) (Error (worker_failed_tag @ msg)) m"

text \<open>
  \<open>_worker_run\<close>. The result is the manager when the worker exits, the events it
  emitted, and the exception that leaves the function, if any.
\<close>

definition worker_run :: "env \<Rightarrow> str \<Rightarrow> block" where
  "worker_run e comment_line =
     try_except_finally (worker_try e comment_line) (worker_except e)
       (\<lambda>m. m\<lparr>worker_active := False\<rparr>)"


section \<open>The engine as a transition system\<close>

text \<open>
  The manager together with the worker threads that were started and have not exited
  (each given by the line it was started on) and the events emitted so far. The caller
  context (the UI thread) performs the calls of the public methods one after the other;
  \<open>WorkerExit i\<close> is the \<open>i\<close>-th live worker running \<open>_worker_run\<close> to its end, which is
  one step here: its only write to the manager is the one of its \<open>finally\<close> clause,
  and it reads the mode and the configuration as they are at that step.
\<close>

record system =
  mgr :: manager
  workers :: "str list"
  emitted :: "event list"

datatype action =
    Cycle
  | WorkerExit nat
  | AddComment real str
  | ClearPendingComments
  | SetEnabled bool
  | SetKeywordMode bool "str list option"
  | SetMaxBatch int
  | SetMode str
  | SetCustomPrompt str
  | ConfigOpenai str str str
  | ConfigDify str str str
  | ConfigCoze str str str "str option"

definition initial :: system where
  "initial = \<lparr>mgr = init, workers = [], emitted = []\<rparr>"

fun step :: "env \<Rightarrow> system \<Rightarrow> action \<Rightarrow> system" where
  "step e s Cycle =
     (let (m', started) = cycle (mgr s)
      in s\<lparr>mgr := m', workers := workers s @ (case started of None \<Rightarrow> [] | Some l \<Rightarrow> [l])\<rparr>)"
| "step e s (WorkerExit i) =
     (if i < length (workers s)
      then (let (m', evs, r) = worker_run e (workers s ! i) (mgr s)
            in s\<lparr>mgr := m', workers := take i (workers s) @ drop (Suc i) (workers s),
                 emitted := emitted s @ evs\<rparr>)
      else s)"
| "step e s (AddComment ts line) = s\<lparr>mgr := add_comment ts line (mgr s)\<rparr>"
| "step e s ClearPendingComments = s\<lparr>mgr := clear_pending_comments (mgr s)\<rparr>"
| "step e s (SetEnabled b) = s\<lparr>mgr := set_enabled b (mgr s)\<rparr>"
| "step e s (SetKeywordMode b ks) = s\<lparr>mgr := set_keyword_mode b ks (mgr s)\<rparr>"
| "step e s (SetMaxBatch n) = s\<lparr>mgr := set_max_batch n (mgr s)\<rparr>"
| "step e s (SetMode md) = s\<lparr>mgr := set_mode md (mgr s)\<rparr>"
| "step e s (SetCustomPrompt p) = s\<lparr>mgr := set_custom_prompt p (mgr s)\<rparr>"
| "step e s (ConfigOpenai b k md) = s\<lparr>mgr := config_openai b k md (mgr s)\<rparr>"
| "step e s (ConfigDify ep k u) = s\<lparr>mgr := config_dify ep k u (mgr s)\<rparr>"
| "step e s (ConfigCoze k b u ep) = s\<lparr>mgr := config_coze k b u ep (mgr s)\<rparr>"

definition run :: "env \<Rightarrow> system \<Rightarrow> action list \<Rightarrow> system" where
  "run e s acts = foldl (step e) s acts"


section \<open>The connection supervisor\<close>

text \<open>
  The fields of \<open>TikTokCommentFetcher\<close> that \<open>stop\<close> reads or writes. The thread and the
  event loop are handles; a callback is modelled by whether it is set, and calling it
  is an effect. The effects of a call are returned as a list, in order.
\<close>

record fetcher =
  has_comment_callback :: bool
  has_error_callback :: bool
  thread :: "nat option"
  loop :: "nat option"
  running :: bool
  disconnect_grace :: real

datatype effect =
    LogError str
  | LogInfo str
  | ErrorCallback str
  | CommentCallback str
  | SubmitDisconnect nat real
  | JoinThread nat real

definition emit_error :: "fetcher \<Rightarrow> str \<Rightarrow> effect list" where
  "emit_error f msg =
     LogError msg #
     (if has_error_callback f then [ErrorCallback msg]
      else if has_comment_callback f
      then [CommentCallback (ascii ''['' @ [9888, 65039] @ ascii ''] '' @ msg)]
      else [])"

definition emit_info :: "fetcher \<Rightarrow> str \<Rightarrow> effect list" where
  "emit_info f msg =
     LogInfo msg #
     (if has_comment_callback f
      then [CommentCallback (ascii ''['' @ [31995, 32479] @ ascii ''] '' @ msg)]
      else [])"

text \<open>The messages of \<open>stop\<close>: "not connected or already stopped", "scheduling the stop
  failed: " and "stopped listening".\<close>

definition not_running_msg :: str where
  "not_running_msg = [26410, 36830, 25509, 25110, 24050, 20572, 27490]"

definition schedule_failed_tag :: str where
  "schedule_failed_tag = [20572, 27490, 30417, 21548, 35843, 24230, 22833, 36133] @ ascii '': ''"

definition stopped_msg :: str where
  "stopped_msg = [24050, 20572, 27490, 30417, 21548]"

text \<open>
  What submitting the disconnect coroutine to the loop and probing its future for 0.1 s
  does: the submission raises, or the probe times out, returns, or raises (the
  exceptions given by their \<open>repr\<close>).
\<close>

datatype submit_outcome = SubmitRaises str | ProbeTimeout | ProbeReturns | ProbeRaises str

definition stop :: "submit_outcome \<Rightarrow> real \<Rightarrow> fetcher \<Rightarrow> fetcher \<times> effect list" where
  "stop outcome timeout f =
     (if \<not> running f then (f, emit_error f not_running_msg)
      else (let scheduled =
                  (case loop f of
                     None \<Rightarrow> []
                   | Some l \<Rightarrow>
                       (case outcome of
                          SubmitRaises r \<Rightarrow> emit_error f (schedule_failed_tag @ r)
                        | ProbeRaises r \<Rightarrow>
                            SubmitDisconnect l (disconnect_grace f) #
                            emit_error f (schedule_failed_tag @ r)
                        | _ \<Rightarrow> [SubmitDisconnect l (disconnect_grace f)]));
                joined = (case thread f of None \<Rightarrow> [] | Some t \<Rightarrow> [JoinThread t timeout])
            in (f\<lparr>running := False\<rparr>, scheduled @ joined @ emit_info f stopped_msg)))"


section \<open>Auxiliary notions and example inputs\<close>

text \<open>A result that is a value or an exception that \<open>except Exception\<close> catches.\<close>

definition catchable :: "'a result \<Rightarrow> bool" where
  "catchable r = (case r of Inl (BaseException _) \<Rightarrow> False | _ \<Rightarrow> True)"

text \<open>
  The single-flight invariant: at most one worker is live, and while one is live the
  flag \<open>_worker_active\<close> is set.
\<close>

definition single_flight :: "system \<Rightarrow> bool" where
  "single_flight s =
     (length (workers s) \<le> 1 \<and> (workers s \<noteq> [] \<longrightarrow> worker_active (mgr s)))"

text \<open>
  An environment in which the chat completion has no choices, every HTTP request times
  out and the signals are delivered; one whose reply signal raises; and one whose
  signals both raise, the error signal with an exception outside \<open>Exception\<close>.
\<close>

definition quiet_env :: env where
  "quiet_env = \<lparr>sdk_available = True,
     chat_create = (\<lambda>cfg system_prompt user_prompt. ChatChoices []),
     http_post = (\<lambda>url headers payload. HttpRaises (ascii ''timed out'')),
     repr = (\<lambda>data. ascii ''{}''),
     reply_emit = (\<lambda>reply. None),
     error_emit = (\<lambda>msg. None)\<rparr>"

definition raising_env :: env where
  "raising_env = quiet_env\<lparr>reply_emit := (\<lambda>reply. Some (Exception (ascii ''bridge deleted'')))\<rparr>"

definition fatal_env :: env where
  "fatal_env = raising_env\<lparr>error_emit := (\<lambda>msg. Some (BaseException (ascii ''exit'')))\<rparr>"

text \<open>A manager with all three network backends configured.\<close>

definition configured :: manager where
  "configured =
     config_coze (ascii ''key'') (ascii ''bot'') (ascii ''viewer'') None
       (config_dify (ascii ''https://dify.example/v1/'') (ascii ''key'') (ascii ''viewer'')
         (config_openai (ascii ''https://llm.example/v1'') (ascii ''key'') (ascii ''gpt'') init))"

text \<open>
  The engine after it was enabled, one comment arrived, a cycle dispatched it, and a
  second comment arrived while the worker is still running.
\<close>

definition busy :: system where
  "busy = run quiet_env initial
     [SetEnabled True, AddComment 1 (ascii ''a: hi''), Cycle, AddComment 2 (ascii ''b: yo'')]"

text \<open>
  The keyword filter \<open>{"hello"}\<close> with the batch size 1 of \<open>__init__\<close>, and two queues:
  \<open>"a: hi"\<close> then \<open>"b: hello there"\<close> in enqueue order, and \<open>"a: hi"\<close> alone.
\<close>

definition hello_two :: manager where
  "hello_two = init\<lparr>enabled := True, keyword_mode := True, keyword_list := [ascii ''hello''],
     comment_q := [(1, ascii ''a: hi''), (2, ascii ''b: hello there'')]\<rparr>"

definition hello_one_acts :: "action list" where
  "hello_one_acts =
     [SetEnabled True, SetKeywordMode True (Some [ascii ''hello'']), AddComment 1 (ascii ''a: hi'')]"

definition hello_one :: manager where
  "hello_one = init\<lparr>enabled := True, keyword_mode := True, keyword_list := [ascii ''hello''],
     comment_q := [(1, ascii ''a: hi'')]\<rparr>"

text \<open>Keyword mode switched on with keywords that are all blank, and two queued comments.\<close>

definition blank_keywords_acts :: "action list" where
  "blank_keywords_acts =
     [SetEnabled True, AddComment 1 (ascii ''a: hi''), AddComment 2 (ascii ''b: hello there''),
      SetKeywordMode True (Some [ascii ''  '', []])]"

text \<open>
  The same with the engine left disabled, as \<open>__init__\<close> leaves it: one comment is
  queued and keyword mode is switched on with blank keywords.
\<close>

definition blank_keywords_disabled_acts :: "action list" where
  "blank_keywords_disabled_acts =
     [AddComment 1 (ascii ''a: hi''), SetKeywordMode True (Some [ascii ''  '', []])]"

text \<open>A supervisor that is not running.\<close>

definition idle_fetcher :: fetcher where
  "idle_fetcher = \<lparr>has_comment_callback = True, has_error_callback = True,
     thread = Some 1, loop = Some 1, running = False, disconnect_grace = 5\<rparr>"


section \<open>Properties of the comment queue\<close>

lemma add_comment_length_le:
  "length (comment_q m) \<le> comment_q_maxlen \<Longrightarrow>
   length (comment_q (add_comment ts line m)) \<le> comment_q_maxlen"
  by (simp add: add_comment_def deque_append_def comment_q_maxlen_def Let_def)

lemma add_comments_length_le:
  "length (comment_q m) \<le> comment_q_maxlen \<Longrightarrow>
   length (comment_q (foldl (\<lambda>m c. add_comment (fst c) (snd c) m) m calls)) \<le> comment_q_maxlen"
  by (induction calls arbitrary: m) (simp_all add: add_comment_length_le)

text \<open>
  Claim C4. From a queue of at most 5000 entries (the empty queue of \<open>__init__\<close> is one),
  every sequence of \<open>add_comment\<close> calls, each with its timestamp and line, leaves a
  queue of at most 5000 entries; and when a line that is neither empty nor starts with
  \<open>[\<close> arrives while the queue holds 5000 entries, the queue afterwards is the old one
  without its oldest entry, followed by the new entry.
\<close>

theorem comment_q_bounded_fifo:
  assumes "length (comment_q m) \<le> 5000"
  shows "length (comment_q (foldl (\<lambda>m c. add_comment (fst c) (snd c) m) m calls)) \<le> 5000 \<and>
    (length (comment_q m) = 5000 \<and> line \<noteq> [] \<and> \<not> startswith line (ascii ''['') \<longrightarrow>
       comment_q (add_comment ts line m) = tl (comment_q m) @ [(ts, line)])"
proof
  from assms
  show "length (comment_q (foldl (\<lambda>m c. add_comment (fst c) (snd c) m) m calls)) \<le> 5000"
    using add_comments_length_le [of m calls] by (simp add: comment_q_maxlen_def)
next
  show "length (comment_q m) = 5000 \<and> line \<noteq> [] \<and> \<not> startswith line (ascii ''['') \<longrightarrow>
       comment_q (add_comment ts line m) = tl (comment_q m) @ [(ts, line)]"
    by (cases "comment_q m")
      (auto simp: add_comment_def deque_append_def comment_q_maxlen_def Let_def)
qed

theorem comment_q_bounded_fifo_witness:
  "length (comment_q (init\<lparr>comment_q := replicate 5000 (0, ascii ''a: x'')\<rparr>)) \<le> 5000 \<and>
   length (comment_q (foldl (\<lambda>m c. add_comment (fst c) (snd c) m)
     (init\<lparr>comment_q := replicate 5000 (0, ascii ''a: x'')\<rparr>)
     [(1, ascii ''b: y''), (2, ascii ''c: z'')])) \<le> 5000 \<and>
   comment_q (add_comment 1 (ascii ''b: y'')
     (init\<lparr>comment_q := replicate 5000 (0, ascii ''a: x'')\<rparr>))
     = tl (replicate 5000 (0, ascii ''a: x'')) @ [(1, ascii ''b: y'')]"
  using comment_q_bounded_fifo [where m = "init\<lparr>comment_q := replicate 5000 (0, ascii ''a: x'')\<rparr>"
      and line = "ascii ''b: y''" and calls = "[(1, ascii ''b: y''), (2, ascii ''c: z'')]"
      and ts = 1]
  by (simp add: ascii_def startswith_def)

text \<open>
  Claim C7. For a line that is empty or whose first code point is \<open>[\<close>, \<open>add_comment\<close>
  returns the manager as it was: the queue keeps its entries and its length.
\<close>

theorem add_comment_rejects:
  "line = [] \<or> (\<exists>rest. line = of_char CHR ''['' # rest) \<Longrightarrow>
   add_comment ts line m = m"
  by (auto simp: add_comment_def startswith_def ascii_def)

theorem add_comment_rejects_witness:
  "add_comment 7 (ascii ''[sys] connected'') (init\<lparr>comment_q := [(1, ascii ''a: hi'')]\<rparr>)
     = init\<lparr>comment_q := [(1, ascii ''a: hi'')]\<rparr>
   \<and> add_comment 7 [] init = init"
  using add_comment_rejects [of "ascii ''[sys] connected''" 7
      "init\<lparr>comment_q := [(1, ascii ''a: hi'')]\<rparr>"]
    add_comment_rejects [of "[]" 7 init]
  by (simp add: ascii_def)

section \<open>The drain loop\<close>

lemma drain_Nil: "drain m [] items = ([], items)"
  by (simp add: drain.simps)

lemma drain_full: "\<not> int (length items) < max_batch m \<Longrightarrow> drain m q items = (q, items)"
  by (simp add: drain.simps)

lemma drain_snoc:
  "int (length items) < max_batch m \<Longrightarrow>
   drain m (q @ [(ts, line)]) items =
     drain m q (if accept_line m line then items @ [line] else items)"
  by (subst drain.simps) (simp add: Let_def)

text \<open>
  When the loop collects nothing, it started with nothing and ran until the queue was
  empty (or did not run at all, when \<open>max_batch\<close> is below 1).
\<close>

lemma drain_none:
  "snd (drain m q items) = [] \<Longrightarrow>
   items = [] \<and> fst (drain m q items) = (if 1 \<le> max_batch m then [] else q)"
proof (induction m q items rule: drain.induct)
  case (1 m q items)
  show ?case
  proof (cases "q \<noteq> [] \<and> int (length items) < max_batch m")
    case True
    let ?line = "snd (last q)"
    let ?items = "if accept_line m ?line then items @ [?line] else items"
    from True have unf: "drain m q items = drain m (butlast q) ?items"
      by (subst drain.simps) (simp add: Let_def)
    with "1.prems" have s: "snd (drain m (butlast q) ?items) = []" by simp
    have ih: "?items = [] \<and>
        fst (drain m (butlast q) ?items) = (if 1 \<le> max_batch m then [] else butlast q)"
      by (rule "1.IH" [OF True refl refl s])
    then have i0: "?items = []" by blast
    then have e: "items = []" by (simp split: if_splits)
    from ih have "fst (drain m (butlast q) ?items) = (if 1 \<le> max_batch m then [] else butlast q)"
      by blast
    then have f: "fst (drain m (butlast q) []) = (if 1 \<le> max_batch m then [] else butlast q)"
      unfolding i0 .
    from unf have u: "drain m q items = drain m (butlast q) []" unfolding i0 .
    from True e have "1 \<le> max_batch m" by simp
    with f u e show ?thesis by simp
  next
    case False
    then have "drain m q items = (q, items)" by (subst drain.simps) auto
    with "1.prems" False show ?thesis by auto
  qed
qed

lemma drain_all_rejected:
  "(\<And>line. \<not> accept_line m line) \<Longrightarrow>
   drain m q [] = ((if 1 \<le> max_batch m then [] else q), [])"
proof (induction q rule: rev_induct)
  case Nil
  show ?case by (simp add: drain_Nil)
next
  case (snoc c q)
  show ?case
  proof (cases "1 \<le> max_batch m")
    case True
    then have "drain m (q @ [(fst c, snd c)]) [] = drain m q []"
      using snoc.prems by (subst drain_snoc) simp_all
    with True snoc show ?thesis by simp
  next
    case False
    then show ?thesis by (simp add: drain_full)
  qed
qed

lemma accept_hello:
  "keyword_mode m \<Longrightarrow> keyword_list m = [ascii ''hello''] \<Longrightarrow>
   accept_line m (ascii ''b: hello there'')"
  by (simp add: accept_line_def ascii_def lower_def lower_cp_def startswith_def)

lemma reject_hi:
  "keyword_mode m \<Longrightarrow> keyword_list m = [ascii ''hello''] \<Longrightarrow>
   \<not> accept_line m (ascii ''a: hi'')"
  by (simp add: accept_line_def ascii_def lower_def lower_cp_def startswith_def)


section \<open>Reachable states\<close>

lemma cycle_guard: "\<not> enabled m \<or> worker_active m \<Longrightarrow> cycle m = (m, None)"
  by (auto simp: cycle_def)

lemma cycle_started:
  "cycle m = (m', Some l) \<Longrightarrow> \<not> worker_active m \<and> worker_active m'"
  by (auto simp: cycle_def start_worker_def Let_def split: if_splits prod.splits)

lemma cycle_flag:
  "cycle m = (m', None) \<Longrightarrow> worker_active m' = worker_active m"
  by (auto simp: cycle_def start_worker_def Let_def split: if_splits prod.splits)

lemma cycle_max_batch: "max_batch (fst (cycle m)) = max_batch m"
  by (simp add: cycle_def start_worker_def Let_def split: prod.splits)

lemma worker_run_manager: "fst (worker_run e line m) = m\<lparr>worker_active := False\<rparr>"
  by (simp add: worker_run_def try_except_finally_def worker_try_def worker_except_def
      emit_signal_def Let_def split: sum.splits exn.splits option.splits prod.splits)

lemma single_flight_initial: "single_flight initial"
  by (simp add: single_flight_def initial_def)

lemma single_flight_step: "single_flight s \<Longrightarrow> single_flight (step e s a)"
proof (cases a)
  case Cycle
  assume inv: "single_flight s"
  obtain m' started where c: "cycle (mgr s) = (m', started)" by (cases "cycle (mgr s)")
  show ?thesis
  proof (cases started)
    case None
    with c inv Cycle show ?thesis
      by (auto simp: single_flight_def dest: cycle_flag)
  next
    case (Some l)
    with c inv Cycle show ?thesis
      by (auto simp: single_flight_def dest!: cycle_started)
  qed
next
  case (WorkerExit i)
  assume inv: "single_flight s"
  show ?thesis
  proof (cases "i < length (workers s)")
    case True
    with inv have empty: "take i (workers s) @ drop (Suc i) (workers s) = []"
      by (simp add: single_flight_def)
    obtain m' evs r where "worker_run e (workers s ! i) (mgr s) = (m', evs, r)"
      by (cases "worker_run e (workers s ! i) (mgr s)")
    with True WorkerExit empty show ?thesis
      by (auto simp: single_flight_def)
  next
    case False
    with inv WorkerExit show ?thesis by simp
  qed
qed (simp_all add: single_flight_def add_comment_def clear_pending_comments_def set_enabled_def
      set_keyword_mode_def set_max_batch_def set_mode_def set_custom_prompt_def
      config_openai_def config_dify_def config_coze_def Let_def split: option.splits)

lemma single_flight_run: "single_flight s \<Longrightarrow> single_flight (run e s acts)"
  unfolding run_def
  by (induction acts arbitrary: s) (simp_all add: single_flight_step)

text \<open>The batch size is at least 1 in every state the engine reaches.\<close>

lemma max_batch_step: "1 \<le> max_batch (mgr s) \<Longrightarrow> 1 \<le> max_batch (mgr (step e s a))"
proof (cases a)
  case Cycle
  assume "1 \<le> max_batch (mgr s)"
  with Cycle cycle_max_batch [of "mgr s"] show ?thesis
    by (cases "cycle (mgr s)") simp
next
  case (WorkerExit i)
  assume "1 \<le> max_batch (mgr s)"
  with WorkerExit worker_run_manager [of e "workers s ! i" "mgr s"] show ?thesis
    by (cases "worker_run e (workers s ! i) (mgr s)") auto
qed (simp_all add: add_comment_def clear_pending_comments_def set_enabled_def
      set_keyword_mode_def set_max_batch_def set_mode_def set_custom_prompt_def
      config_openai_def config_dify_def config_coze_def Let_def split: option.splits)

lemma max_batch_run: "1 \<le> max_batch (mgr s) \<Longrightarrow> 1 \<le> max_batch (mgr (run e s acts))"
  unfolding run_def
  by (induction acts arbitrary: s) (simp_all add: max_batch_step)

lemma max_batch_reachable: "1 \<le> max_batch (mgr (run e initial acts))"
  by (rule max_batch_run) (simp add: initial_def init_def)

lemma busy_eq:
  "busy = \<lparr>mgr = init\<lparr>enabled := True, comment_q := [(2, ascii ''b: yo'')], worker_active := True\<rparr>,
          workers = [ascii ''a: hi''], emitted = []\<rparr>"
proof -
  have "drain (init\<lparr>enabled := True, comment_q := [(1, ascii ''a: hi'')]\<rparr>)
          ([] @ [(1, ascii ''a: hi'')]) [] =
        drain (init\<lparr>enabled := True, comment_q := [(1, ascii ''a: hi'')]\<rparr>)
          [] [ascii ''a: hi'']"
    by (subst drain_snoc) (simp_all add: init_def accept_line_def)
  then have "cycle (init\<lparr>enabled := True, comment_q := [(1, ascii ''a: hi'')]\<rparr>) =
      (init\<lparr>enabled := True, comment_q := [], worker_active := True\<rparr>, Some (ascii ''a: hi''))"
    by (simp add: cycle_def drain_Nil start_worker_def) (simp add: init_def)
  moreover have "comment_q init = []" by (simp add: init_def)
  ultimately show ?thesis
    by (simp add: busy_def run_def initial_def set_enabled_def add_comment_def
        deque_append_def comment_q_maxlen_def startswith_def ascii_def Let_def)
qed


section \<open>Single flight\<close>

text \<open>
  Claim C1. When \<open>cycle\<close> is called while the engine is disabled or while the flag
  \<open>_worker_active\<close> is set, it returns at once: the manager, and with it the queue, is
  as before, no worker is started and nothing is emitted. In every state that the
  engine reaches from its initial state, whatever the calls and worker exits were, at
  most one worker is live, and while one is live a call of \<open>cycle\<close> changes nothing.
\<close>

theorem cycle_single_flight:
  "(\<not> enabled (mgr s) \<or> worker_active (mgr s) \<longrightarrow>
      cycle (mgr s) = (mgr s, None) \<and> step e s Cycle = s) \<and>
   length (workers (run e initial acts)) \<le> 1 \<and>
   (workers (run e initial acts) \<noteq> [] \<longrightarrow>
      step e (run e initial acts) Cycle = run e initial acts)"
proof (intro conjI impI)
  assume "\<not> enabled (mgr s) \<or> worker_active (mgr s)"
  then show "cycle (mgr s) = (mgr s, None)" by (rule cycle_guard)
  then show "step e s Cycle = s" by simp
next
  have inv: "single_flight (run e initial acts)"
    by (rule single_flight_run [OF single_flight_initial])
  then show "length (workers (run e initial acts)) \<le> 1"
    by (simp add: single_flight_def)
  assume "workers (run e initial acts) \<noteq> []"
  with inv have "worker_active (mgr (run e initial acts))"
    by (simp add: single_flight_def)
  then have "cycle (mgr (run e initial acts)) = (mgr (run e initial acts), None)"
    by (simp add: cycle_guard)
  then show "step e (run e initial acts) Cycle = run e initial acts" by simp
qed

theorem cycle_single_flight_witness:
  "worker_active (mgr busy) \<and> workers busy = [ascii ''a: hi''] \<and>
   comment_q (mgr busy) = [(2, ascii ''b: yo'')] \<and>
   cycle (mgr busy) = (mgr busy, None) \<and>
   step quiet_env busy Cycle = busy \<and>
   length (workers (run quiet_env initial
     [SetEnabled True, AddComment 1 (ascii ''a: hi''), Cycle, AddComment 2 (ascii ''b: yo'')])) \<le> 1"
proof -
  have b: "worker_active (mgr busy)" "workers busy = [ascii ''a: hi'']"
    "comment_q (mgr busy) = [(2, ascii ''b: yo'')]"
    by (simp_all add: busy_eq)
  from cycle_single_flight [of busy quiet_env
      "[SetEnabled True, AddComment 1 (ascii ''a: hi''), Cycle, AddComment 2 (ascii ''b: yo'')]"] b
  show ?thesis by simp
qed


section \<open>The worker\<close>

text \<open>
  Claim C2. Whatever line the worker was started on and whatever happens in it (the
  reply is emitted; a backend returns its error as a string, which is emitted as the
  reply; the body raises, whether or not the \<open>except\<close> clause catches the exception and
  whether or not the clause raises itself), the manager that the worker leaves behind
  is the one it found with \<open>_worker_active\<close> set to \<open>False\<close>.
\<close>

theorem worker_clears_flag:
  "fst (worker_run e comment_line m) = m\<lparr>worker_active := False\<rparr> \<and>
   worker_active (fst (worker_run e comment_line m)) = False"
  by (simp add: worker_run_def try_except_finally_def worker_try_def worker_except_def
      emit_signal_def Let_def split: sum.splits exn.splits option.splits prod.splits)

lemma dify_timed_out:
  "call_dify_agent quiet_env configured text = Inr (dify_error_tag @ ascii ''timed out'')"
  by (simp add: call_dify_agent_def configured_def config_coze_def config_dify_def
      config_openai_def DifyConfig_def dify_request_def post_json_def quiet_env_def
      try_except_def Let_def ascii_def strip_def lstrip_def rstrip_def isspace_def)

lemma call_dify_agent_flag:
  "call_dify_agent e (m\<lparr>mode := md, worker_active := b\<rparr>) text = call_dify_agent e m text"
  by (simp add: call_dify_agent_def)

theorem worker_clears_flag_witness:
  "worker_run quiet_env (ascii ''a: hi'') (init\<lparr>worker_active := True\<rparr>) =
     (init, [Reply (ascii ''AI(Echo): hi'')], Inr ()) \<and>
   worker_run quiet_env (ascii ''a: hi'')
       (configured\<lparr>mode := ascii ''dify'', worker_active := True\<rparr>) =
     (configured\<lparr>mode := ascii ''dify'', worker_active := False\<rparr>,
      [Reply (dify_error_tag @ ascii ''timed out'')], Inr ()) \<and>
   worker_run raising_env (ascii ''a: hi'') (init\<lparr>worker_active := True\<rparr>) =
     (init, [Error (worker_failed_tag @ ascii ''bridge deleted'')], Inr ()) \<and>
   worker_run fatal_env (ascii ''a: hi'') (init\<lparr>worker_active := True\<rparr>) =
     (init, [], Inl (BaseException (ascii ''exit'')))"
proof -
  have t: "extract_comment_text (ascii ''a: hi'') = ascii ''hi''"
    by (simp add: extract_comment_text_def split1_def ascii_def strip_def lstrip_def rstrip_def
        isspace_def)
  have r: "worker_reply e (init\<lparr>worker_active := True\<rparr>) (ascii ''a: hi'')
             = Inr (ascii ''AI(Echo): hi'')" for e
    by (simp add: worker_reply_def t build_prompts_def Let_def echo_def)
      (simp add: init_def ascii_def)
  have i: "init\<lparr>worker_active := True, worker_active := False\<rparr> = init"
    by (simp add: init_def)
  have "snd (worker_run quiet_env (ascii ''a: hi'') (init\<lparr>worker_active := True\<rparr>)) =
      ([Reply (ascii ''AI(Echo): hi'')], Inr ())"
    by (simp add: worker_run_def try_except_finally_def worker_try_def r emit_signal_def
        quiet_env_def)
  moreover
  have "worker_reply quiet_env (configured\<lparr>mode := ascii ''dify'', worker_active := True\<rparr>)
      (ascii ''a: hi'') = Inr (dify_error_tag @ ascii ''timed out'')"
    by (simp add: worker_reply_def t build_prompts_def Let_def call_dify_agent_flag
        dify_timed_out)
      (simp add: ascii_def dify_error_tag_def)
  then have "snd (worker_run quiet_env (ascii ''a: hi'')
      (configured\<lparr>mode := ascii ''dify'', worker_active := True\<rparr>)) =
      ([Reply (dify_error_tag @ ascii ''timed out'')], Inr ())"
    by (simp add: worker_run_def try_except_finally_def worker_try_def emit_signal_def
        quiet_env_def)
  moreover
  have "snd (worker_run raising_env (ascii ''a: hi'') (init\<lparr>worker_active := True\<rparr>)) =
      ([Error (worker_failed_tag @ ascii ''bridge deleted'')], Inr ())"
    by (simp add: worker_run_def try_except_finally_def worker_try_def worker_except_def r
        emit_signal_def raising_env_def quiet_env_def)
  moreover
  have "snd (worker_run fatal_env (ascii ''a: hi'') (init\<lparr>worker_active := True\<rparr>)) =
      ([], Inl (BaseException (ascii ''exit'')))"
    by (simp add: worker_run_def try_except_finally_def worker_try_def worker_except_def r
        emit_signal_def fatal_env_def raising_env_def quiet_env_def)
  ultimately show ?thesis
    using worker_clears_flag [of quiet_env "ascii ''a: hi''" "init\<lparr>worker_active := True\<rparr>"]
      worker_clears_flag [of quiet_env "ascii ''a: hi''"
        "configured\<lparr>mode := ascii ''dify'', worker_active := True\<rparr>"]
      worker_clears_flag [of raising_env "ascii ''a: hi''" "init\<lparr>worker_active := True\<rparr>"]
      worker_clears_flag [of fatal_env "ascii ''a: hi''" "init\<lparr>worker_active := True\<rparr>"]
    by (simp add: i prod_eq_iff)
qed


section \<open>The backends never raise\<close>

lemma catchable_simps [simp]:
  "catchable (Inr v)" "catchable (Inl (Exception msg))" "\<not> catchable (Inl (BaseException msg))"
  by (simp_all add: catchable_def)

lemma try_except_returns:
  assumes "catchable body" and "\<And>msg. \<exists>s. handler msg = Inr s"
  shows "\<exists>s. try_except body handler = Inr s"
proof (cases body)
  case (Inl x)
  with assms show ?thesis by (cases x) (simp_all add: try_except_def)
next
  case (Inr v)
  then show ?thesis by (simp add: try_except_def)
qed

lemma catchable_bind [simp]:
  "catchable (case r of Inl x \<Rightarrow> Inl x | Inr v \<Rightarrow> f v) =
     (catchable r \<and> (\<forall>v. r = Inr v \<longrightarrow> catchable (f v)))"
  by (cases r) (simp_all add: catchable_def)

lemma catchable_attribute_error [simp]: "catchable (attribute_error v a)"
  by (simp add: attribute_error_def)

lemma catchable_dict_get [simp]: "catchable (dict_get v k d)"
  by (cases v) simp_all

lemma catchable_json_strip [simp]: "catchable (json_strip v)"
  by (cases v) simp_all

lemma catchable_post_json [simp]: "catchable (post_json e url hs p)"
  by (simp add: post_json_def split: http_outcome.splits)

lemma catchable_openai_request: "catchable (openai_request e cfg sp up)"
  by (simp add: openai_request_def split: chat_outcome.splits list.splits option.splits)

lemma catchable_dify_answer [simp]: "catchable (dify_answer data)"
  by (simp add: dify_answer_def)

lemma catchable_dify_request: "catchable (dify_request e cfg text)"
  by (simp add: dify_request_def Let_def)

lemma catchable_coze_blocks [simp]: "catchable (coze_blocks cs)"
  by (induction cs) simp_all

lemma catchable_coze_messages [simp]: "catchable (coze_messages ms)"
  by (induction ms) (simp_all split: json.splits option.splits)

lemma catchable_coze_message_list [simp]: "catchable (coze_message_list data)"
  by (simp add: coze_message_list_def)

lemma catchable_coze_request: "catchable (coze_request e cfg text)"
  by (simp add: coze_request_def Let_def split: json.splits option.splits)

text \<open>
  Claim C3. For every system prompt, user prompt and text, every configuration, and
  whatever the chat completion or the HTTP request does (it raises, or it answers with
  any choices or any JSON value), each of \<open>_call_openai\<close>, \<open>_call_dify_agent\<close> and
  \<open>_call_coze_agent\<close> returns a string; none of them raises.
\<close>

theorem backends_never_raise:
  "(\<exists>s. call_openai e m system_prompt user_prompt = Inr s) \<and>
   (\<exists>s. call_dify_agent e m text = Inr s) \<and>
   (\<exists>s. call_coze_agent e m text = Inr s)"
proof (intro conjI)
  show "\<exists>s. call_openai e m system_prompt user_prompt = Inr s"
    unfolding call_openai_def Let_def
    using try_except_returns [OF catchable_openai_request] by simp
  show "\<exists>s. call_dify_agent e m text = Inr s"
    unfolding call_dify_agent_def Let_def
    using try_except_returns [OF catchable_dify_request] by simp
  show "\<exists>s. call_coze_agent e m text = Inr s"
    unfolding call_coze_agent_def Let_def
    using try_except_returns [OF catchable_coze_request] by simp
qed

lemma configured_fields:
  "openai_cfg configured = \<lparr>oa_base_url = ascii ''https://llm.example/v1'',
     oa_api_key = ascii ''key'', oa_model = ascii ''gpt''\<rparr>"
  "coze_api_key (coze_cfg configured) = ascii ''key''"
  "coze_bot_id (coze_cfg configured) = ascii ''bot''"
  by (simp_all add: configured_def config_coze_def config_dify_def config_openai_def
      init_def CozeConfig_def ascii_def strip_def lstrip_def rstrip_def isspace_def Let_def)

theorem backends_never_raise_witness:
  "call_openai quiet_env configured default_system_prompt (user_prompt_prefix @ ascii ''hi'') =
     Inr (openai_error_tag @ ascii ''list index out of range'') \<and>
   call_dify_agent quiet_env configured (ascii ''hi'') =
     Inr (dify_error_tag @ ascii ''timed out'') \<and>
   call_coze_agent quiet_env configured (ascii ''hi'') =
     Inr (coze_error_tag @ ascii ''timed out'') \<and>
   call_dify_agent quiet_env init (ascii ''hi'') = Inr (ascii ''AI(Echo): hi'')"
proof -
  have "call_openai quiet_env configured default_system_prompt (user_prompt_prefix @ ascii ''hi'') =
     Inr (openai_error_tag @ ascii ''list index out of range'')"
    by (simp add: call_openai_def configured_fields openai_request_def try_except_def)
      (simp add: quiet_env_def ascii_def)
  moreover have "call_coze_agent quiet_env configured (ascii ''hi'') =
     Inr (coze_error_tag @ ascii ''timed out'')"
    by (simp add: call_coze_agent_def configured_fields coze_request_def post_json_def
        try_except_def Let_def)
      (simp add: quiet_env_def ascii_def)
  moreover have "call_dify_agent quiet_env init (ascii ''hi'') = Inr (ascii ''AI(Echo): hi'')"
    by (simp add: call_dify_agent_def init_def DifyConfig_def echo_def ascii_def)
  ultimately show ?thesis
    using backends_never_raise [of quiet_env configured default_system_prompt
        "user_prompt_prefix @ ascii ''hi''" "ascii ''hi''"] dify_timed_out [of "ascii ''hi''"]
    by simp
qed


section \<open>The cycle and the keyword filter\<close>

lemma cycle_newest_first:
  assumes "enabled m" and "\<not> worker_active m"
    and "keyword_mode m" and "keyword_list m = [ascii ''hello'']" and "max_batch m = 1"
    and "comment_q m = [(t1, ascii ''a: hi''), (t2, ascii ''b: hello there'')]"
  shows "cycle m = (m\<lparr>comment_q := [(t1, ascii ''a: hi'')], worker_active := True\<rparr>,
                    Some (ascii ''b: hello there''))"
proof -
  have "drain m ([(t1, ascii ''a: hi'')] @ [(t2, ascii ''b: hello there'')]) []
          = drain m [(t1, ascii ''a: hi'')] [ascii ''b: hello there'']"
    using assms(5) accept_hello [OF assms(3,4)] by (subst drain_snoc) simp_all
  also have "\<dots> = ([(t1, ascii ''a: hi'')], [ascii ''b: hello there''])"
    using assms(5) by (simp add: drain_full)
  finally show ?thesis
    using assms(1,2,6) by (simp add: cycle_def start_worker_def)
qed

lemma hello_two_fields:
  "enabled hello_two" "\<not> worker_active hello_two" "keyword_mode hello_two"
  "keyword_list hello_two = [ascii ''hello'']" "max_batch hello_two = 1"
  "comment_q hello_two = [(1, ascii ''a: hi''), (2, ascii ''b: hello there'')]"
  by (simp_all add: hello_two_def init_def)

text \<open>
  Claim C5, as the code has it. With the keyword filter \<open>{"hello"}\<close>, a batch size of 1
  and the queue \<open>"a: hi"\<close>, \<open>"b: hello there"\<close> in enqueue order, one \<open>cycle\<close> of the
  enabled, idle engine pops the newest entry, accepts it and stops: it dispatches
  exactly \<open>"b: hello there"\<close>, and \<open>"a: hi"\<close>, which it did not examine, stays in the
  queue.
\<close>

theorem cycle_newest_match:
  assumes "enabled m" and "\<not> worker_active m"
    and "keyword_mode m" and "keyword_list m = [ascii ''hello'']" and "max_batch m = 1"
    and "comment_q m = [(t1, ascii ''a: hi''), (t2, ascii ''b: hello there'')]"
  shows "snd (cycle m) = Some (ascii ''b: hello there'') \<and>
    fst (cycle m) = m\<lparr>comment_q := [(t1, ascii ''a: hi'')], worker_active := True\<rparr>"
  using cycle_newest_first [OF assms] by simp

theorem cycle_newest_match_witness:
  "snd (cycle hello_two) = Some (ascii ''b: hello there'') \<and>
   fst (cycle hello_two) = hello_two\<lparr>comment_q := [(1, ascii ''a: hi'')], worker_active := True\<rparr>"
  using cycle_newest_match [of hello_two 1 2] hello_two_fields by simp

text \<open>
  The claim as the specification states it fails: after the cycle that dispatches
  \<open>"b: hello there"\<close>, the entry \<open>"a: hi"\<close> is still in the queue.
\<close>

theorem cycle_keeps_unexamined_counterexample:
  "snd (cycle hello_two) = Some (ascii ''b: hello there'') \<and>
   (1, ascii ''a: hi'') \<in> set (comment_q (fst (cycle hello_two)))"
  using cycle_newest_first [of hello_two 1 2] hello_two_fields by simp

lemma hello_one_fields:
  "enabled hello_one" "\<not> worker_active hello_one" "keyword_mode hello_one"
  "keyword_list hello_one = [ascii ''hello'']" "max_batch hello_one = 1"
  "comment_q hello_one = [(1, ascii ''a: hi'')]"
  by (simp_all add: hello_one_def init_def)

lemma hello_one_drain: "drain hello_one (comment_q hello_one) [] = ([], [])"
proof -
  have "drain hello_one ([] @ [(1, ascii ''a: hi'')]) [] = drain hello_one [] []"
    using reject_hi [of hello_one] hello_one_fields by (subst drain_snoc) simp_all
  then show ?thesis by (simp add: drain_Nil hello_one_fields)
qed

lemma hello_one_reached:
  "run e initial hello_one_acts = \<lparr>mgr = hello_one, workers = [], emitted = []\<rparr>"
proof -
  have "comment_q init = []" by (simp add: init_def)
  moreover have "strip (ascii ''hello'') = ascii ''hello''"
    by (simp add: ascii_def strip_def lstrip_def rstrip_def isspace_def)
  ultimately show ?thesis
    by (simp add: run_def hello_one_acts_def initial_def set_enabled_def set_keyword_mode_def
        add_comment_def deque_append_def comment_q_maxlen_def startswith_def hello_one_def
        Let_def)
      (simp add: ascii_def)
qed

text \<open>
  Claim C6, as the code has it. In a state that the engine reaches, when \<open>cycle\<close> runs
  (engine enabled, no dispatch in flight) and none of the entries it drains passes the
  keyword filter, no worker is started and nothing is emitted, and the manager is as
  before except for the comment queue: the drained entries are discarded, which leaves
  the queue empty.
\<close>

theorem cycle_nothing_accepted:
  fixes e :: env and acts :: "action list"
  defines "s \<equiv> run e initial acts"
  assumes "enabled (mgr s)" and "\<not> worker_active (mgr s)"
    and "snd (drain (mgr s) (comment_q (mgr s)) []) = []"
  shows "cycle (mgr s) = ((mgr s)\<lparr>comment_q := []\<rparr>, None) \<and>
         step e s Cycle = s\<lparr>mgr := (mgr s)\<lparr>comment_q := []\<rparr>\<rparr>"
proof -
  have mb: "1 \<le> max_batch (mgr s)"
    unfolding s_def by (rule max_batch_reachable)
  obtain q' items where d: "drain (mgr s) (comment_q (mgr s)) [] = (q', items)"
    by (cases "drain (mgr s) (comment_q (mgr s)) []")
  with assms(4) mb drain_none [of "mgr s" "comment_q (mgr s)" "[]"]
  have "items = []" and "q' = []"
    by simp_all
  with d assms(2,3) have "cycle (mgr s) = ((mgr s)\<lparr>comment_q := []\<rparr>, None)"
    by (simp add: cycle_def)
  then show ?thesis by simp
qed

theorem cycle_nothing_accepted_witness:
  "mgr (run quiet_env initial hello_one_acts) = hello_one \<and>
   enabled hello_one \<and> \<not> worker_active hello_one \<and>
   snd (drain hello_one (comment_q hello_one) []) = [] \<and>
   cycle hello_one = (hello_one\<lparr>comment_q := []\<rparr>, None) \<and>
   step quiet_env (run quiet_env initial hello_one_acts) Cycle =
     \<lparr>mgr = hello_one\<lparr>comment_q := []\<rparr>, workers = [], emitted = []\<rparr>"
  using cycle_nothing_accepted [of quiet_env hello_one_acts]
    hello_one_reached [of quiet_env] hello_one_fields hello_one_drain
  by simp

text \<open>
  The claim as the specification states it fails: the cycle that accepts nothing has
  removed \<open>"a: hi"\<close> from the queue, so the manager is not the one before the call.
\<close>

theorem cycle_discards_rejected_counterexample:
  "enabled hello_one \<and> \<not> worker_active hello_one \<and>
   snd (drain hello_one (comment_q hello_one) []) = [] \<and>
   snd (cycle hello_one) = None \<and>
   comment_q hello_one = [(1, ascii ''a: hi'')] \<and>
   comment_q (fst (cycle hello_one)) = [] \<and>
   fst (cycle hello_one) \<noteq> hello_one"
proof -
  have c: "cycle hello_one = (hello_one\<lparr>comment_q := []\<rparr>, None)"
    using hello_one_fields hello_one_drain by (simp add: cycle_def)
  have "comment_q (fst (cycle hello_one)) \<noteq> comment_q hello_one"
    by (simp add: c hello_one_fields)
  then have "fst (cycle hello_one) \<noteq> hello_one" by auto
  with hello_one_fields c hello_one_drain show ?thesis by simp
qed


text \<open>
  Claim C10, as the code has it. In a state that the engine reaches with keyword mode
  on and an empty keyword list (\<open>set_keyword_mode(True, ks)\<close> with only blank keywords
  leads to one), \<open>_accept_line\<close> rejects every line, and no \<open>cycle\<close> starts a worker or
  emits anything; a \<open>cycle\<close> that gets past its guards (engine enabled, no dispatch in
  flight) leaves the queue empty: every queued comment is drained and discarded.
\<close>

theorem empty_keyword_list_discards_all:
  fixes e :: env and acts :: "action list"
  defines "s \<equiv> run e initial acts"
  assumes "keyword_mode (mgr s)" and "keyword_list (mgr s) = []"
  shows "\<not> accept_line (mgr s) line \<and>
    snd (cycle (mgr s)) = None \<and>
    workers (step e s Cycle) = workers s \<and>
    emitted (step e s Cycle) = emitted s \<and>
    (enabled (mgr s) \<and> \<not> worker_active (mgr s) \<longrightarrow> comment_q (fst (cycle (mgr s))) = [])"
proof -
  have mb: "1 \<le> max_batch (mgr s)"
    unfolding s_def by (rule max_batch_reachable)
  have rej: "\<not> accept_line (mgr s) l" for l
    using assms(2,3) by (simp add: accept_line_def)
  then have "drain (mgr s) (comment_q (mgr s)) [] =
      ((if 1 \<le> max_batch (mgr s) then [] else comment_q (mgr s)), [])"
    by (rule drain_all_rejected)
  with mb have d: "drain (mgr s) (comment_q (mgr s)) [] = ([], [])" by simp
  have c: "snd (cycle (mgr s)) = None"
    by (simp add: cycle_def d)
  have "comment_q (fst (cycle (mgr s))) = []"
    if "enabled (mgr s) \<and> \<not> worker_active (mgr s)"
    using that by (simp add: cycle_def d)
  moreover have "workers (step e s Cycle) = workers s \<and> emitted (step e s Cycle) = emitted s"
    using c by (cases "cycle (mgr s)") simp
  ultimately show ?thesis using rej c by blast
qed

lemma blank_keywords_reached:
  "run e initial blank_keywords_acts =
     \<lparr>mgr = init\<lparr>enabled := True, keyword_mode := True,
              comment_q := [(1, ascii ''a: hi''), (2, ascii ''b: hello there'')]\<rparr>,
      workers = [], emitted = []\<rparr>"
proof -
  have "comment_q init = []" "keyword_list init = []" by (simp_all add: init_def)
  moreover have "strip (ascii ''  '') = []" "strip [] = []"
    by (simp_all add: ascii_def strip_def lstrip_def rstrip_def isspace_def)
  ultimately show ?thesis
    by (simp add: run_def blank_keywords_acts_def initial_def set_enabled_def
        set_keyword_mode_def add_comment_def deque_append_def comment_q_maxlen_def
        startswith_def Let_def)
      (simp add: ascii_def init_def)
qed

theorem empty_keyword_list_discards_all_witness:
  "keyword_mode (mgr (run quiet_env initial blank_keywords_acts)) \<and>
   keyword_list (mgr (run quiet_env initial blank_keywords_acts)) = [] \<and>
   comment_q (mgr (run quiet_env initial blank_keywords_acts)) =
     [(1, ascii ''a: hi''), (2, ascii ''b: hello there'')] \<and>
   \<not> accept_line (mgr (run quiet_env initial blank_keywords_acts)) (ascii ''b: hello there'') \<and>
   snd (cycle (mgr (run quiet_env initial blank_keywords_acts))) = None \<and>
   comment_q (fst (cycle (mgr (run quiet_env initial blank_keywords_acts)))) = [] \<and>
   workers (step quiet_env (run quiet_env initial blank_keywords_acts) Cycle) = [] \<and>
   emitted (step quiet_env (run quiet_env initial blank_keywords_acts) Cycle) = []"
proof -
  let ?m = "mgr (run quiet_env initial blank_keywords_acts)"
  have k: "keyword_mode ?m" "keyword_list ?m = []" "enabled ?m" "\<not> worker_active ?m"
    "comment_q ?m = [(1, ascii ''a: hi''), (2, ascii ''b: hello there'')]"
    "workers (run quiet_env initial blank_keywords_acts) = []"
    "emitted (run quiet_env initial blank_keywords_acts) = []"
    by (simp_all add: blank_keywords_reached) (simp_all add: init_def)
  from empty_keyword_list_discards_all [of quiet_env blank_keywords_acts "ascii ''b: hello there''"]
    k
  show ?thesis by simp
qed

lemma blank_keywords_disabled_reached:
  "run e initial blank_keywords_disabled_acts =
     \<lparr>mgr = init\<lparr>keyword_mode := True, comment_q := [(1, ascii ''a: hi'')]\<rparr>,
      workers = [], emitted = []\<rparr>"
proof -
  have "comment_q init = []" "keyword_list init = []" by (simp_all add: init_def)
  moreover have "strip (ascii ''  '') = []" "strip [] = []"
    by (simp_all add: ascii_def strip_def lstrip_def rstrip_def isspace_def)
  ultimately show ?thesis
    by (simp add: run_def blank_keywords_disabled_acts_def initial_def
        set_keyword_mode_def add_comment_def deque_append_def comment_q_maxlen_def
        startswith_def Let_def)
      (simp add: ascii_def init_def)
qed

text \<open>
  The claim as the specification states it, for every \<open>cycle\<close>, fails: the engine is
  disabled until \<open>set_enabled(True)\<close>, and a \<open>cycle\<close> of the disabled engine, with keyword
  mode on and no keyword, returns at its first guard and leaves \<open>"a: hi"\<close> in the queue.
\<close>

theorem disabled_cycle_keeps_queue_counterexample:
  "keyword_mode (mgr (run quiet_env initial blank_keywords_disabled_acts)) \<and>
   keyword_list (mgr (run quiet_env initial blank_keywords_disabled_acts)) = [] \<and>
   enabled (mgr (run quiet_env initial blank_keywords_disabled_acts)) = False \<and>
   comment_q (mgr (run quiet_env initial blank_keywords_disabled_acts)) = [(1, ascii ''a: hi'')] \<and>
   comment_q (fst (cycle (mgr (run quiet_env initial blank_keywords_disabled_acts)))) =
     [(1, ascii ''a: hi'')] \<and>
   step quiet_env (run quiet_env initial blank_keywords_disabled_acts) Cycle =
     run quiet_env initial blank_keywords_disabled_acts"
proof -
  let ?m = "mgr (run quiet_env initial blank_keywords_disabled_acts)"
  have k: "keyword_mode ?m" "keyword_list ?m = []" "enabled ?m = False"
    "comment_q ?m = [(1, ascii ''a: hi'')]"
    by (simp_all add: blank_keywords_disabled_reached) (simp_all add: init_def)
  then have "cycle ?m = (?m, None)" by (simp add: cycle_guard)
  with k show ?thesis by simp
qed


section \<open>Degrading to Echo\<close>

lemma extract_alice:
  "extract_comment_text (ascii ''alice: nice stream'') = ascii ''nice stream''"
  by (simp add: extract_comment_text_def split1_def ascii_def strip_def lstrip_def rstrip_def
      isspace_def)

lemma replace_prefix:
  "replace (user_prompt_prefix @ ascii ''nice stream'') user_prompt_prefix [] =
     ascii ''nice stream''"
  by (simp add: user_prompt_prefix_def ascii_def startswith_def)

lemma strip_nice: "strip (ascii ''nice stream'') = ascii ''nice stream''"
  by (simp add: ascii_def strip_def lstrip_def rstrip_def isspace_def)

text \<open>
  Claim C8. In mode \<open>openai\<close> with an empty \<open>api_key\<close>, whatever the rest of the
  configuration and the custom prompt are, the worker started on the line
  \<open>"alice: nice stream"\<close> generates the string \<open>"AI(Echo): nice stream"\<close>, and emits it as
  the reply when the reply signal is delivered.
\<close>

theorem openai_without_key_echoes:
  assumes "mode m = ascii ''openai''" and "oa_api_key (openai_cfg m) = []"
  shows "worker_reply e m (ascii ''alice: nice stream'') = Inr (ascii ''AI(Echo): nice stream'') \<and>
    (reply_emit e (ascii ''AI(Echo): nice stream'') = None \<longrightarrow>
       worker_run e (ascii ''alice: nice stream'') m =
         (m\<lparr>worker_active := False\<rparr>, [Reply (ascii ''AI(Echo): nice stream'')], Inr ()))"
proof -
  have "call_openai e m sp (user_prompt_prefix @ ascii ''nice stream'')
          = Inr (echo (ascii ''nice stream''))" for sp
    using assms(2) by (simp add: call_openai_def replace_prefix strip_nice)
  moreover have "echo (ascii ''nice stream'') = ascii ''AI(Echo): nice stream''"
    by (simp add: echo_def ascii_def)
  moreover have "ascii ''AI(Echo): nice stream'' \<noteq> []" by (simp add: ascii_def)
  ultimately have r: "worker_reply e m (ascii ''alice: nice stream'')
      = Inr (ascii ''AI(Echo): nice stream'')"
    using assms(1) by (simp add: worker_reply_def extract_alice build_prompts_def Let_def)
  then show ?thesis
    by (simp add: worker_run_def try_except_finally_def worker_try_def emit_signal_def)
qed

theorem openai_without_key_echoes_witness:
  "worker_reply quiet_env (set_mode (ascii ''openai'') init) (ascii ''alice: nice stream'')
     = Inr (ascii ''AI(Echo): nice stream'') \<and>
   worker_run quiet_env (ascii ''alice: nice stream'') (set_mode (ascii ''openai'') init) =
     (set_mode (ascii ''openai'') init, [Reply (ascii ''AI(Echo): nice stream'')], Inr ())"
proof -
  have "mode (set_mode (ascii ''openai'') init) = ascii ''openai''"
    "oa_api_key (openai_cfg (set_mode (ascii ''openai'') init)) = []"
    "reply_emit quiet_env (ascii ''AI(Echo): nice stream'') = None"
    "(set_mode (ascii ''openai'') init)\<lparr>worker_active := False\<rparr> = set_mode (ascii ''openai'') init"
    by (simp_all add: set_mode_def init_def OpenAIConfig_def quiet_env_def)
  with openai_without_key_echoes [of "set_mode (ascii ''openai'') init" quiet_env]
  show ?thesis by simp
qed


section \<open>Stopping the supervisor\<close>

text \<open>
  Claim C9. \<open>stop\<close> on a supervisor that is not running returns it as it was, so that
  the running flag, the thread and the loop are unchanged; its effects are those of
  reporting the error "not connected or already stopped": the error is logged, and
  passed to the error callback when there is one; no disconnect is submitted to the
  loop and no thread is joined.
\<close>

theorem stop_when_not_running:
  assumes "\<not> running f"
  shows "stop outcome timeout f = (f, emit_error f not_running_msg) \<and>
    hd (snd (stop outcome timeout f)) = LogError not_running_msg \<and>
    (has_error_callback f \<longrightarrow>
       snd (stop outcome timeout f) = [LogError not_running_msg, ErrorCallback not_running_msg]) \<and>
    (\<forall>l g. SubmitDisconnect l g \<notin> set (snd (stop outcome timeout f))) \<and>
    (\<forall>t d. JoinThread t d \<notin> set (snd (stop outcome timeout f)))"
  using assms by (simp add: stop_def emit_error_def)

theorem stop_when_not_running_witness:
  "\<not> running idle_fetcher \<and>
   stop ProbeTimeout 5 idle_fetcher =
     (idle_fetcher, [LogError not_running_msg, ErrorCallback not_running_msg])"
  using stop_when_not_running [of idle_fetcher ProbeTimeout 5]
  by (simp add: idle_fetcher_def emit_error_def)

end
